theory Spec2Isabelle
  imports Complex_Main "HOL-Library.Log_Nat"
begin

section \<open>Configuration (server/src/config.ts)\<close>

text \<open>
  The \<^verbatim>\<open>SCORING\<close> object: three scores and two nested objects. All its numbers are
  small integers, which a JavaScript number holds exactly.
\<close>

record weights =
  hasLendingActivity :: int
  neverLiquidated :: int
  accountAge :: int
  multiProtocol :: int
  perfectRepayment :: int

record thresholds =
  accountAgeMonths :: int
  minProtocols :: int

record scoring =
  minScore :: int
  maxScore :: int
  baseScore :: int
  weights :: weights
  thresholds :: thresholds

definition SCORING :: scoring where
  "SCORING =
     \<lparr> minScore = 300,
       maxScore = 850,
       baseScore = 500,
       weights =
         \<lparr> weights.hasLendingActivity = 100,
           weights.neverLiquidated = 50,
           accountAge = 100,
           multiProtocol = 50,
           perfectRepayment = 150 \<rparr>,
       thresholds =
         \<lparr> thresholds.accountAgeMonths = 6,
           minProtocols = 2 \<rparr> \<rparr>"

section \<open>Activity snapshot (server/src/scanner.ts)\<close>

text \<open>
  The interface \<^verbatim>\<open>WalletActivity\<close>. The field \<^verbatim>\<open>repaymentHistory\<close> is a string at run
  time; its declared type is the union of the five literals listed in
  \<open>repaymentTiers\<close>. The scoring code compares it with string literals, so the model keeps
  it a string and states the declared type as the predicate \<open>valid_snapshot\<close>.
\<close>

record WalletActivity =
  address :: string
  hasLendingActivity :: bool
  neverLiquidated :: bool
  accountAgeMonths :: int
  protocolCount :: int
  repaymentHistory :: string
  totalBorrowedUSD :: int
  totalRepaidUSD :: int

definition repaymentTiers :: "string list" where
  "repaymentTiers = [''none'', ''poor'', ''average'', ''good'', ''strong'']"

definition valid_snapshot :: "WalletActivity \<Rightarrow> bool" where
  "valid_snapshot a \<longleftrightarrow>
     0 \<le> WalletActivity.accountAgeMonths a \<and> 0 \<le> protocolCount a \<and>
     repaymentHistory a \<in> set repaymentTiers"

text \<open>
  The order of the tiers, \<open>none/poor < average < good < strong\<close>, as a rank.
\<close>

definition tierRank :: "string \<Rightarrow> nat" where
  "tierRank h =
     (if h = ''strong'' then 3 else if h = ''good'' then 2
      else if h = ''average'' then 1 else 0)"

section \<open>JavaScript numbers in the repayment bonus\<close>

text \<open>
  \<^verbatim>\<open>Math.floor(SCORING.weights.perfectRepayment * 0.7)\<close> multiplies two IEEE-754 binary64
  numbers. The literal \<^verbatim>\<open>0.7\<close> is not the rational 7/10 but the nearest binary64 value, and
  the product is rounded again. The model computes with exact rationals and rounds to 53
  significant bits, ties to even, where the language does (normal range, no overflow: the
  values here lie between 1/4 and 128).
\<close>

definition binade :: "rat \<Rightarrow> int" where
  \<comment> \<open>for \<open>0 < x\<close>: the exponent \<open>e\<close> with \<open>2^e \<le> x < 2^(e+1)\<close>\<close>
  "binade x = (if 1 \<le> x then bitlen \<lfloor>x\<rfloor> - 1 else - bitlen (\<lceil>1 / x\<rceil> - 1))"

definition round_ties_even :: "rat \<Rightarrow> int" where
  "round_ties_even q =
     (let f = \<lfloor>q\<rfloor>; r = q - of_int f in
      if r < 1 / 2 then f
      else if 1 / 2 < r then f + 1
      else if even f then f else f + 1)"

definition binary64 :: "rat \<Rightarrow> rat" where
  "binary64 x =
     (if x = 0 then 0
      else let ulp = 2 powi (binade \<bar>x\<bar> - 52) in
        sgn x * of_int (round_ties_even (\<bar>x\<bar> / ulp)) * ulp)"

text \<open>The number literals \<^verbatim>\<open>0.7\<close> and \<^verbatim>\<open>0.4\<close>: the decimal, rounded to binary64.\<close>

definition literal_0_7 :: rat where
  "literal_0_7 = binary64 (7 / 10)"

definition literal_0_4 :: rat where
  "literal_0_4 = binary64 (4 / 10)"

definition js_mul :: "rat \<Rightarrow> rat \<Rightarrow> rat" where
  "js_mul x y = binary64 (x * y)"

definition Math_floor :: "rat \<Rightarrow> int" where
  "Math_floor x = \<lfloor>x\<rfloor>"

section \<open>The scoring function (CreditOracle.calculateCreditScore)\<close>

text \<open>
  The if / else-if chain on \<^verbatim>\<open>activity.repaymentHistory\<close>: the amount added to the score.
  The first branch compares with the literal \<^verbatim>\<open>'perfect'\<close>. A chain with no final
  \<^verbatim>\<open>else\<close> adds nothing when no branch matches.
\<close>

definition repaymentBonus :: "string \<Rightarrow> int" where
  "repaymentBonus h =
     (if h = ''perfect'' then perfectRepayment (weights SCORING)
      else if h = ''good'' then
        Math_floor (js_mul (of_int (perfectRepayment (weights SCORING))) literal_0_7)
      else if h = ''average'' then
        Math_floor (js_mul (of_int (perfectRepayment (weights SCORING))) literal_0_4)
      else 0)"

text \<open>
  The value of the variable \<^verbatim>\<open>score\<close> before the two clamping assignments: the base and
  the five conditional additions, in the order of the source.
\<close>

definition scoreBeforeClamp :: "WalletActivity \<Rightarrow> int" where
  "scoreBeforeClamp activity =
     (let score = baseScore SCORING;
          score = (if WalletActivity.hasLendingActivity activity
                   then score + weights.hasLendingActivity (weights SCORING) else score);
          score = (if WalletActivity.neverLiquidated activity
                   then score + weights.neverLiquidated (weights SCORING) else score);
          score = (if thresholds.accountAgeMonths (thresholds SCORING)
                        \<le> WalletActivity.accountAgeMonths activity
                   then score + accountAge (weights SCORING) else score);
          score = (if minProtocols (thresholds SCORING) \<le> protocolCount activity
                   then score + multiProtocol (weights SCORING) else score);
          score = score + repaymentBonus (repaymentHistory activity)
      in score)"

definition calculateCreditScore :: "WalletActivity \<Rightarrow> int" where
  "calculateCreditScore activity =
     (let score = scoreBeforeClamp activity;
          score = min score (maxScore SCORING);
          score = max score (minScore SCORING)
      in score)"

section \<open>Effects: errors, console output and calls that leave the process\<close>

text \<open>
  A thrown \<^verbatim>\<open>Error\<close> is a value with its message. The asynchronous methods run one
  after the other (every call is awaited), so each is a function from the state before to
  an outcome and the state after. The state is the outside world \<open>'w\<close> (the chain, seen
  through the provider) and the trace of what the process did: every console line and every
  call to the registry contract, in order.

  An awaited promise resolves, rejects, or never settles (the code sets no timeout). The
  outcome is \<open>Some (Inr x)\<close> for a value, \<open>Some (Inl e)\<close> for a thrown error and
  \<open>None\<close> when the method is still waiting; the state is then the one reached at the
  await that never settles. A \<^verbatim>\<open>catch\<close> handles a thrown error only.
\<close>

datatype error = Error (message: string)

record TransactionResponse =
  hash :: string

record TransactionReceipt =
  hash :: string
  blockNumber :: nat

record UpdateResult =
  score :: int
  txHash :: string

datatype event =
    Log_processing string
  | Log_scanning string
  | Log_scan_complete WalletActivity
  | Log_bonus string int
  | Log_calculated int
  | Call_updateScore string int
  | Log_transaction_sent string
  | Log_waiting_for_confirmation
  | Call_wait string
  | Log_score_updated nat
  | Error_updating string
  | Call_hasScore string
  | Error_checking error
  | Log_batch_start nat
  | Sleep nat
  | Error_failed_to_update string string
  | Log_batch_complete

type_synonym 'w state = "'w \<times> event list"

type_synonym 'a outcome = "(error + 'a) option"

type_synonym ('a, 'w) action = "'w state \<Rightarrow> 'a outcome \<times> 'w state"

definition ret :: "'a \<Rightarrow> ('a, 'w) action" where
  "ret x s = (Some (Inr x), s)"

definition throw :: "error \<Rightarrow> ('a, 'w) action" where
  "throw e s = (Some (Inl e), s)"

definition andThen :: "('a, 'w) action \<Rightarrow> ('a \<Rightarrow> ('b, 'w) action) \<Rightarrow> ('b, 'w) action" where
  "andThen m f s =
     (case m s of
        (None, s') \<Rightarrow> (None, s')
      | (Some (Inl e), s') \<Rightarrow> (Some (Inl e), s')
      | (Some (Inr x), s') \<Rightarrow> f x s')"

definition tryCatch :: "('a, 'w) action \<Rightarrow> (error \<Rightarrow> ('a, 'w) action) \<Rightarrow> ('a, 'w) action" where
  "tryCatch m h s =
     (case m s of
        (None, s') \<Rightarrow> (None, s')
      | (Some (Inl e), s') \<Rightarrow> h e s'
      | (Some (Inr x), s') \<Rightarrow> (Some (Inr x), s'))"

definition emit :: "event \<Rightarrow> (unit, 'w) action" where
  "emit ev s = (Some (Inr ()), (fst s, snd s @ [ev]))"

definition emitAll :: "event list \<Rightarrow> (unit, 'w) action" where
  "emitAll evs s = (Some (Inr ()), (fst s, snd s @ evs))"

text \<open>
  A call to the outside: the call is recorded, then the world answers with a result or an
  error and moves on, or never answers.
\<close>

definition call :: "event \<Rightarrow> ('w \<Rightarrow> 'a outcome \<times> 'w) \<Rightarrow> ('a, 'w) action" where
  "call ev f s = (case f (fst s) of (r, w') \<Rightarrow> (r, (w', snd s @ [ev])))"

text \<open>
  What the class gets from the \<^verbatim>\<open>ethers\<close> library and the deployed contract, none of
  it code of this repository: the address-format test, the two contract methods of the ABI
  that the claims are about, and \<^verbatim>\<open>wait\<close> of a sent transaction.
\<close>

record 'w network =
  ethers_isAddress :: "string \<Rightarrow> bool"
  registry_updateScore :: "string \<Rightarrow> int \<Rightarrow> 'w \<Rightarrow> TransactionResponse outcome \<times> 'w"
  tx_wait :: "TransactionResponse \<Rightarrow> 'w \<Rightarrow> TransactionReceipt outcome \<times> 'w"
  registry_hasScore :: "string \<Rightarrow> 'w \<Rightarrow> bool outcome \<times> 'w"

text \<open>Every call the update makes on the contract settles: it resolves or rejects.\<close>

definition settles :: "'w network \<Rightarrow> bool" where
  "settles net \<longleftrightarrow>
     (\<forall>user plaintextScore w. \<exists>r. fst (registry_updateScore net user plaintextScore w) = Some r) \<and>
     (\<forall>tx w. \<exists>r. fst (tx_wait net tx w) = Some r)"

section \<open>The activity fetch (server/src/scanner.ts)\<close>

text \<open>
  \<^verbatim>\<open>generateMockData\<close> picks one of four profiles from the character code of the last
  character of the address, lower-cased, modulo 4. On the empty string \<^verbatim>\<open>slice(-1)\<close> is
  empty, \<^verbatim>\<open>charCodeAt(0)\<close> is NaN, and the \<^verbatim>\<open>switch\<close> takes its default. Characters are
  the code units below 256.
\<close>

definition toLowerCase_char :: "char \<Rightarrow> char" where
  "toLowerCase_char c =
     (let n = (of_char c :: nat) in
      if (65 \<le> n \<and> n \<le> 90) \<or> (192 \<le> n \<and> n \<le> 222 \<and> n \<noteq> 215)
      then char_of (n + 32) else c)"

definition slice_last :: "string \<Rightarrow> string" where
  "slice_last s = (case rev s of [] \<Rightarrow> [] | c # _ \<Rightarrow> [c])"

definition charCodeAt0 :: "string \<Rightarrow> nat option" where
  "charCodeAt0 s = (case s of [] \<Rightarrow> None | c # _ \<Rightarrow> Some (of_char c))"

definition generateMockData :: "string \<Rightarrow> WalletActivity" where
  "generateMockData addr =
     (let lastChar = map toLowerCase_char (slice_last addr);
          charCode = charCodeAt0 lastChar;
          profileType = map_option (\<lambda>c. c mod 4) charCode
      in if profileType = Some 0 then
           \<lparr> address = addr, hasLendingActivity = True, neverLiquidated = True,
             accountAgeMonths = 12, protocolCount = 3, repaymentHistory = ''strong'',
             totalBorrowedUSD = 50000, totalRepaidUSD = 50000 \<rparr>
         else if profileType = Some 1 then
           \<lparr> address = addr, hasLendingActivity = True, neverLiquidated = True,
             accountAgeMonths = 8, protocolCount = 2, repaymentHistory = ''good'',
             totalBorrowedUSD = 25000, totalRepaidUSD = 25000 \<rparr>
         else if profileType = Some 2 then
           \<lparr> address = addr, hasLendingActivity = True, neverLiquidated = True,
             accountAgeMonths = 4, protocolCount = 1, repaymentHistory = ''average'',
             totalBorrowedUSD = 10000, totalRepaidUSD = 9500 \<rparr>
         else
           \<lparr> address = addr, hasLendingActivity = False, neverLiquidated = True,
             accountAgeMonths = 1, protocolCount = 0, repaymentHistory = ''none'',
             totalBorrowedUSD = 0, totalRepaidUSD = 0 \<rparr>)"

definition scanWalletActivity :: "string \<Rightarrow> (WalletActivity, 'w) action" where
  "scanWalletActivity addr =
     andThen (emit (Log_scanning addr)) (\<lambda>_.
       let mockData = generateMockData addr in
       andThen (emit (Log_scan_complete mockData)) (\<lambda>_.
         ret mockData))"

section \<open>The oracle (CreditOracle and batchUpdateScores)\<close>

definition calculateCreditScore_console :: "WalletActivity \<Rightarrow> event list" where
  "calculateCreditScore_console activity =
     (if WalletActivity.hasLendingActivity activity
      then [Log_bonus ''Has lending activity'' (weights.hasLendingActivity (weights SCORING))]
      else []) @
     (if WalletActivity.neverLiquidated activity
      then [Log_bonus ''Never liquidated'' (weights.neverLiquidated (weights SCORING))]
      else []) @
     (if thresholds.accountAgeMonths (thresholds SCORING)
           \<le> WalletActivity.accountAgeMonths activity
      then [Log_bonus ''Account age'' (accountAge (weights SCORING))] else []) @
     (if minProtocols (thresholds SCORING) \<le> protocolCount activity
      then [Log_bonus ''Multi-protocol user'' (multiProtocol (weights SCORING))] else []) @
     (if repaymentHistory activity = ''perfect''
      then [Log_bonus ''Perfect repayments'' (repaymentBonus ''perfect'')]
      else if repaymentHistory activity = ''good''
      then [Log_bonus ''Good repayments'' (repaymentBonus ''good'')]
      else if repaymentHistory activity = ''average''
      then [Log_bonus ''Average repayments'' (repaymentBonus ''average'')]
      else [])"

definition updateCreditScore :: "'w network \<Rightarrow> string \<Rightarrow> (UpdateResult, 'w) action" where
  "updateCreditScore net userAddress =
     tryCatch
       (andThen (emit (Log_processing userAddress)) (\<lambda>_.
        andThen (if \<not> ethers_isAddress net userAddress
                 then throw (Error ''Invalid Ethereum address'') else ret ()) (\<lambda>_.
        andThen (scanWalletActivity userAddress) (\<lambda>activity.
        andThen (emitAll (calculateCreditScore_console activity)) (\<lambda>_.
        let score = calculateCreditScore activity in
        andThen (emit (Log_calculated score)) (\<lambda>_.
        andThen (call (Call_updateScore userAddress score)
                   (registry_updateScore net userAddress score)) (\<lambda>tx.
        andThen (emit (Log_transaction_sent (TransactionResponse.hash tx))) (\<lambda>_.
        andThen (emit Log_waiting_for_confirmation) (\<lambda>_.
        andThen (call (Call_wait (TransactionResponse.hash tx)) (tx_wait net tx)) (\<lambda>receipt.
        andThen (emit (Log_score_updated (blockNumber receipt))) (\<lambda>_.
        ret \<lparr> score = score, txHash = TransactionReceipt.hash receipt \<rparr>)))))))))))
       (\<lambda>error.
        andThen (emit (Error_updating (message error))) (\<lambda>_.
        throw error))"

definition hasScore :: "'w network \<Rightarrow> string \<Rightarrow> (bool, 'w) action" where
  "hasScore net userAddress =
     tryCatch
       (call (Call_hasScore userAddress) (registry_hasScore net userAddress))
       (\<lambda>error.
        andThen (emit (Error_checking error)) (\<lambda>_.
        ret False))"

text \<open>
  The \<^verbatim>\<open>for ... of\<close> loop of \<^verbatim>\<open>batchUpdateScores\<close>: the body is a \<^verbatim>\<open>try\<close> around the update
  and the two-second pause, with a \<^verbatim>\<open>catch\<close> that prints the message.
\<close>

fun batchLoop :: "'w network \<Rightarrow> string list \<Rightarrow> (unit, 'w) action" where
  "batchLoop net [] = ret ()"
| "batchLoop net (addr # rest) =
     andThen
       (tryCatch
          (andThen (updateCreditScore net addr) (\<lambda>_.
           emit (Sleep 2000)))
          (\<lambda>error. emit (Error_failed_to_update addr (message error))))
       (\<lambda>_. batchLoop net rest)"

definition batchUpdateScores :: "'w network \<Rightarrow> string list \<Rightarrow> (unit, 'w) action" where
  "batchUpdateScores net addresses =
     andThen (emit (Log_batch_start (length addresses))) (\<lambda>_.
     andThen (batchLoop net addresses) (\<lambda>_.
     emit Log_batch_complete))"

text \<open>
  What the batch is to do with one address, in the words of the specification: run the
  update on the state the previous address left; a failure is caught and logged, a success
  is followed by the pause; either way the next address comes next. \<open>batchBySpec\<close> does so
  for the whole list, from left to right. When an update never settles, the batch is left
  waiting in it.
\<close>

definition itemBySpec :: "'w network \<Rightarrow> 'w state \<Rightarrow> string \<Rightarrow> 'w state" where
  "itemBySpec net s addr =
     (case updateCreditScore net addr s of
        (None, s') \<Rightarrow> s'
      | (Some (Inl e), s') \<Rightarrow> (fst s', snd s' @ [Error_failed_to_update addr (message e)])
      | (Some (Inr r), s') \<Rightarrow> (fst s', snd s' @ [Sleep 2000]))"

definition batchBySpec :: "'w network \<Rightarrow> string list \<Rightarrow> 'w state \<Rightarrow> 'w state" where
  "batchBySpec net addresses s = foldl (itemBySpec net) s addresses"

text \<open>The addresses whose update was started, in the order of the trace.\<close>

fun startedUpdates :: "event list \<Rightarrow> string list" where
  "startedUpdates [] = []"
| "startedUpdates (Log_processing a # evs) = a # startedUpdates evs"
| "startedUpdates (_ # evs) = startedUpdates evs"

text \<open>The calls that leave the process, and the activity fetch.\<close>

fun isOutsideCall :: "event \<Rightarrow> bool" where
  "isOutsideCall (Log_scanning _) = True"
| "isOutsideCall (Call_updateScore _ _) = True"
| "isOutsideCall (Call_wait _) = True"
| "isOutsideCall (Call_hasScore _) = True"
| "isOutsideCall _ = False"

section \<open>An example network\<close>

text \<open>
  A small instance of the outside world, used to run the oracle on concrete inputs: the
  world is the current block number, an address is accepted when it is \<^verbatim>\<open>0x\<close> followed by
  40 characters, the registry rejects scores above 800, and only one address has a score.
  It stands for no real deployment.
\<close>

definition exampleNetwork :: "nat network" where
  "exampleNetwork =
     \<lparr> ethers_isAddress = (\<lambda>s. length s = 42 \<and> take 2 s = ''0x''),
       registry_updateScore =
         (\<lambda>user plaintextScore block.
            if 800 < plaintextScore then (Some (Inl (Error ''execution reverted'')), block)
            else (Some (Inr \<lparr> TransactionResponse.hash = ''0xfeed'' \<rparr>), block)),
       tx_wait =
         (\<lambda>tx block.
            (Some (Inr \<lparr> TransactionReceipt.hash = TransactionResponse.hash tx,
                          blockNumber = block + 1 \<rparr>), block + 1)),
       registry_hasScore =
         (\<lambda>user block.
            if user = ''0x0000000000000000000000000000000000000001''
            then (Some (Inr True), block)
            else (Some (Inl (Error ''could not detect network'')), block)) \<rparr>"

text \<open>The same network, except that no transaction is ever confirmed.\<close>

definition stalledNetwork :: "nat network" where
  "stalledNetwork = exampleNetwork \<lparr> tx_wait := (\<lambda>tx block. (None, block)) \<rparr>"

section \<open>Properties of the scoring function\<close>

lemma literal_0_7_value: "literal_0_7 = 3152519739159347 / 4503599627370496"
  by code_simp

lemma literal_0_4_value: "literal_0_4 = 3602879701896397 / 9007199254740992"
  by code_simp

lemma floor_150_times_0_7: "Math_floor (js_mul 150 literal_0_7) = 105"
  by code_simp

lemma floor_150_times_0_4: "Math_floor (js_mul 150 literal_0_4) = 60"
  by code_simp

lemma repaymentBonus_eq:
  "repaymentBonus h =
     (if h = ''perfect'' then 150 else if h = ''good'' then 105
      else if h = ''average'' then 60 else 0)"
  by (simp add: repaymentBonus_def SCORING_def floor_150_times_0_7 floor_150_times_0_4)

lemma repaymentBonus_bounds: "0 \<le> repaymentBonus h \<and> repaymentBonus h \<le> 150"
  by (simp add: repaymentBonus_eq)

lemma scoreBeforeClamp_eq:
  "scoreBeforeClamp a =
     500 + (if WalletActivity.hasLendingActivity a then 100 else 0)
         + (if WalletActivity.neverLiquidated a then 50 else 0)
         + (if 6 \<le> WalletActivity.accountAgeMonths a then 100 else 0)
         + (if 2 \<le> protocolCount a then 50 else 0)
         + repaymentBonus (repaymentHistory a)"
  by (simp add: scoreBeforeClamp_def SCORING_def Let_def)

lemma calculateCreditScore_eq:
  "calculateCreditScore a = max (min (scoreBeforeClamp a) 850) 300"
  by (simp add: calculateCreditScore_def SCORING_def Let_def)

lemma binade_bounds:
  assumes "0 < x"
  shows "2 powi binade x \<le> x \<and> x < 2 powi (binade x + 1)"
proof (cases "1 \<le> x")
  case True
  define n where "n = \<lfloor>x\<rfloor>"
  have n1: "1 \<le> n" using True by (simp add: n_def)
  then have n0: "0 < n" by simp
  have k1: "1 \<le> bitlen n" using n0 bitlen_eq_zero_iff [of n] bitlen_nonneg [of n] by linarith
  have b: "2 ^ nat (bitlen n - 1) \<le> n \<and> n < 2 ^ nat (bitlen n)"
    using bitlen_bounds [OF n0] .
  have e: "binade x = bitlen n - 1" using True by (simp add: binade_def n_def)
  have lo: "(2::rat) powi (bitlen n - 1) = of_int (2 ^ nat (bitlen n - 1))"
    using k1 by (simp add: power_int_def)
  have hi: "(2::rat) powi (bitlen n - 1 + 1) = of_int (2 ^ nat (bitlen n))"
    using k1 by (simp add: power_int_def)
  have "of_int n \<le> x" by (simp add: n_def)
  moreover have "x < of_int (n + 1)" unfolding n_def by linarith
  moreover have "(of_int (2 ^ nat (bitlen n - 1)) :: rat) \<le> of_int n"
    using b by (simp only: of_int_le_iff)
  moreover have "(of_int (n + 1) :: rat) \<le> of_int (2 ^ nat (bitlen n))"
    using b by (simp only: of_int_le_iff) simp
  ultimately show ?thesis unfolding e lo hi by linarith
next
  case False
  define y where "y = 1 / x"
  define m where "m = \<lceil>y\<rceil> - 1"
  have y1: "1 < y" using False assms by (simp add: y_def)
  have xy: "x = 1 / y" by (simp add: y_def)
  have "1 < \<lceil>y\<rceil>" using y1 by linarith
  then have m0: "0 < m" by (simp add: m_def)
  have k1: "1 \<le> bitlen m" using m0 bitlen_eq_zero_iff [of m] bitlen_nonneg [of m] by linarith
  have b: "2 ^ nat (bitlen m - 1) \<le> m \<and> m < 2 ^ nat (bitlen m)"
    using bitlen_bounds [OF m0] .
  have e: "binade x = - bitlen m" using False by (simp add: binade_def m_def y_def)
  have my: "of_int m < y" unfolding m_def by linarith
  have ym: "y \<le> of_int (m + 1)" unfolding m_def by simp
  have "(2::rat) ^ nat (bitlen m - 1) = of_int (2 ^ nat (bitlen m - 1))" by simp
  also have "\<dots> \<le> of_int m"
    using b by (simp only: of_int_le_iff)
  also note my
  finally have lo: "(2::rat) ^ nat (bitlen m - 1) < y" .
  note ym
  also have "(of_int (m + 1) :: rat) \<le> of_int (2 ^ nat (bitlen m))"
    using b by (simp only: of_int_le_iff) simp
  also have "\<dots> = (2::rat) ^ nat (bitlen m)" by simp
  finally have hi: "y \<le> (2::rat) ^ nat (bitlen m)" .
  have p1: "(2::rat) powi (- bitlen m) = 1 / 2 ^ nat (bitlen m)"
    using k1 by (simp add: power_int_def field_simps)
  have p2: "(2::rat) powi (- bitlen m + 1) = 1 / 2 ^ nat (bitlen m - 1)"
  proof (cases "bitlen m = 1")
    case True
    then show ?thesis by simp
  next
    case False
    with k1 have "nat (- (- bitlen m + 1)) = nat (bitlen m - 1)" "\<not> 0 \<le> - bitlen m + 1"
      by simp_all
    then show ?thesis by (simp add: power_int_def field_simps)
  qed
  have "1 / 2 ^ nat (bitlen m) \<le> x"
    unfolding xy using hi y1 by (simp add: field_simps)
  moreover have "x < 1 / (2::rat) ^ nat (bitlen m - 1)"
    unfolding xy using lo y1 by (simp add: field_simps)
  ultimately show ?thesis by (simp only: e p1 p2)
qed

lemma scoreBeforeClamp_bounds: "500 \<le> scoreBeforeClamp a \<and> scoreBeforeClamp a \<le> 950"
  using repaymentBonus_bounds [of "repaymentHistory a"]
  by (simp add: scoreBeforeClamp_eq)

lemma in_repaymentTiers:
  "h \<in> set repaymentTiers \<longleftrightarrow>
     h = ''none'' \<or> h = ''poor'' \<or> h = ''average'' \<or> h = ''good'' \<or> h = ''strong''"
  by (auto simp: repaymentTiers_def)

lemma generateMockData_last:
  "generateMockData (pre @ [c]) =
     (let p = (of_char (toLowerCase_char c) :: nat) mod 4 in
      if p = 0 then
        \<lparr> address = pre @ [c], hasLendingActivity = True, neverLiquidated = True,
          accountAgeMonths = 12, protocolCount = 3, repaymentHistory = ''strong'',
          totalBorrowedUSD = 50000, totalRepaidUSD = 50000 \<rparr>
      else if p = 1 then
        \<lparr> address = pre @ [c], hasLendingActivity = True, neverLiquidated = True,
          accountAgeMonths = 8, protocolCount = 2, repaymentHistory = ''good'',
          totalBorrowedUSD = 25000, totalRepaidUSD = 25000 \<rparr>
      else if p = 2 then
        \<lparr> address = pre @ [c], hasLendingActivity = True, neverLiquidated = True,
          accountAgeMonths = 4, protocolCount = 1, repaymentHistory = ''average'',
          totalBorrowedUSD = 10000, totalRepaidUSD = 9500 \<rparr>
      else
        \<lparr> address = pre @ [c], hasLendingActivity = False, neverLiquidated = True,
          accountAgeMonths = 1, protocolCount = 0, repaymentHistory = ''none'',
          totalBorrowedUSD = 0, totalRepaidUSD = 0 \<rparr>)"
  by (simp add: generateMockData_def slice_last_def charCodeAt0_def Let_def)

lemma generateMockData_valid: "valid_snapshot (generateMockData addr)"
  by (simp add: generateMockData_def valid_snapshot_def in_repaymentTiers Let_def)

text \<open>
  The scanner hands the scoring function the tier \<^verbatim>\<open>'strong'\<close>: any address whose last
  character is \<^verbatim>\<open>0\<close>, \<^verbatim>\<open>4\<close>, \<^verbatim>\<open>8\<close> or \<^verbatim>\<open>d\<close> gets the first profile.
\<close>

lemma generateMockData_ends_in_0:
  "generateMockData (pre @ ''0'') =
     \<lparr> address = pre @ ''0'', hasLendingActivity = True, neverLiquidated = True,
       accountAgeMonths = 12, protocolCount = 3, repaymentHistory = ''strong'',
       totalBorrowedUSD = 50000, totalRepaidUSD = 50000 \<rparr>"
  by (simp add: generateMockData_last toLowerCase_char_def Let_def)

subsection \<open>Each factor alone\<close>

lemma calculateCreditScore_mono:
  "scoreBeforeClamp a \<le> scoreBeforeClamp b \<Longrightarrow> calculateCreditScore a \<le> calculateCreditScore b"
  by (simp add: calculateCreditScore_eq)

lemma score_mono_hasLendingActivity:
  "calculateCreditScore (a\<lparr>WalletActivity.hasLendingActivity := False\<rparr>)
     \<le> calculateCreditScore (a\<lparr>WalletActivity.hasLendingActivity := True\<rparr>)"
  by (rule calculateCreditScore_mono) (simp add: scoreBeforeClamp_eq)

lemma score_mono_neverLiquidated:
  "calculateCreditScore (a\<lparr>WalletActivity.neverLiquidated := False\<rparr>)
     \<le> calculateCreditScore (a\<lparr>WalletActivity.neverLiquidated := True\<rparr>)"
  by (rule calculateCreditScore_mono) (simp add: scoreBeforeClamp_eq)

lemma score_mono_accountAgeMonths:
  "m \<le> m' \<Longrightarrow>
   calculateCreditScore (a\<lparr>WalletActivity.accountAgeMonths := m\<rparr>)
     \<le> calculateCreditScore (a\<lparr>WalletActivity.accountAgeMonths := m'\<rparr>)"
  by (rule calculateCreditScore_mono) (simp add: scoreBeforeClamp_eq)

lemma score_mono_protocolCount:
  "n \<le> n' \<Longrightarrow>
   calculateCreditScore (a\<lparr>protocolCount := n\<rparr>)
     \<le> calculateCreditScore (a\<lparr>protocolCount := n'\<rparr>)"
  by (rule calculateCreditScore_mono) (simp add: scoreBeforeClamp_eq)

lemma repaymentBonus_mono_below_strong:
  assumes "h \<in> set repaymentTiers" and "h' \<in> set repaymentTiers" and "h' \<noteq> ''strong''"
    and "tierRank h \<le> tierRank h'"
  shows "repaymentBonus h \<le> repaymentBonus h'"
  using assms unfolding in_repaymentTiers
  by (elim disjE; simp add: tierRank_def repaymentBonus_eq)

lemma score_mono_tier_below_strong:
  "h \<in> set repaymentTiers \<Longrightarrow> h' \<in> set repaymentTiers \<Longrightarrow> h' \<noteq> ''strong'' \<Longrightarrow>
   tierRank h \<le> tierRank h' \<Longrightarrow>
   calculateCreditScore (a\<lparr>repaymentHistory := h\<rparr>)
     \<le> calculateCreditScore (a\<lparr>repaymentHistory := h'\<rparr>)"
  by (rule calculateCreditScore_mono)
    (simp add: scoreBeforeClamp_eq repaymentBonus_mono_below_strong)

subsection \<open>The claims about the scoring function\<close>

text \<open>
  C1. The claim: a snapshot with \<^verbatim>\<open>repaymentHistory = "strong"\<close> gets the repayment bonus
  of 150, and the all-positive snapshot sums to 950 and scores 850. The code compares the
  field with \<^verbatim>\<open>'perfect'\<close>, which is none of the five declared values, so \<^verbatim>\<open>"strong"\<close>
  matches no branch: the snapshot sums to 800 and scores 800.
\<close>

theorem strong_profile_scores_800:
  "scoreBeforeClamp
     \<lparr> address = addr, hasLendingActivity = True, neverLiquidated = True,
       accountAgeMonths = 12, protocolCount = 3, repaymentHistory = ''strong'',
       totalBorrowedUSD = b, totalRepaidUSD = r \<rparr> = 800 \<and>
   calculateCreditScore
     \<lparr> address = addr, hasLendingActivity = True, neverLiquidated = True,
       accountAgeMonths = 12, protocolCount = 3, repaymentHistory = ''strong'',
       totalBorrowedUSD = b, totalRepaidUSD = r \<rparr> = 800"
  by (simp add: calculateCreditScore_eq scoreBeforeClamp_eq repaymentBonus_eq)

text \<open>
  C2. For every valid snapshot (non-negative age and protocol count, one of the five
  declared repayment values) the score lies between 300 and 850, both included.
\<close>

theorem score_in_range:
  "valid_snapshot a \<Longrightarrow> 300 \<le> calculateCreditScore a \<and> calculateCreditScore a \<le> 850"
  by (simp add: calculateCreditScore_eq)

theorem score_in_range_witness:
  "valid_snapshot (generateMockData ''0x01'') \<and>
   300 \<le> calculateCreditScore (generateMockData ''0x01'') \<and>
   calculateCreditScore (generateMockData ''0x01'') \<le> 850"
  using score_in_range [OF generateMockData_valid [of "''0x01''"]]
    generateMockData_valid [of "''0x01''"]
  by simp

text \<open>
  C3. The claim: raising any single positive factor never lowers the score, the repayment
  tier included, in the order none/poor, average, good, strong. The lemmas of the previous
  subsection give this for the two flags, the age, the protocol count and the tiers up to
  good. The step from good to strong fails: with every other factor absent, good scores
  605 and strong scores 500.
\<close>

theorem raising_tier_to_strong_lowers_score:
  "tierRank ''good'' < tierRank ''strong'' \<and>
   calculateCreditScore
     \<lparr> address = addr, hasLendingActivity = False, neverLiquidated = False,
       accountAgeMonths = 0, protocolCount = 0, repaymentHistory = ''good'',
       totalBorrowedUSD = b, totalRepaidUSD = r \<rparr> = 605 \<and>
   calculateCreditScore
     \<lparr> address = addr, hasLendingActivity = False, neverLiquidated = False,
       accountAgeMonths = 0, protocolCount = 0, repaymentHistory = ''strong'',
       totalBorrowedUSD = b, totalRepaidUSD = r \<rparr> = 500"
  by (simp add: calculateCreditScore_eq scoreBeforeClamp_eq repaymentBonus_eq tierRank_def)

text \<open>
  C4. The claim: the repayment bonus is added once, 150 for the top tier, 105 for good, 60
  for average and 0 for poor or none. The bonus is one value chosen by one if / else-if
  chain, so it is added once, and good, average, poor and none get 105, 60, 0 and 0. The
  top tier of the snapshot type, \<^verbatim>\<open>"strong"\<close>, gets 0; the 150 goes to the string
  \<^verbatim>\<open>'perfect'\<close>, which the type does not have.
\<close>

theorem repaymentBonus_per_tier:
  "repaymentBonus ''strong'' = 0 \<and> repaymentBonus ''good'' = 105 \<and>
   repaymentBonus ''average'' = 60 \<and> repaymentBonus ''poor'' = 0 \<and>
   repaymentBonus ''none'' = 0 \<and> repaymentBonus ''perfect'' = 150"
  by (simp add: repaymentBonus_eq)

text \<open>
  C5. The three concrete cases: the good-tier snapshot (true, true, 8 months, 2 protocols)
  sums to 905 and scores 850; the average-tier snapshot (true, true, 4 months, 1 protocol)
  scores 710; the none-tier snapshot (false, true, 1 month, 0 protocols) scores 550.
\<close>

theorem concrete_scores:
  "scoreBeforeClamp
     \<lparr> address = addr, hasLendingActivity = True, neverLiquidated = True,
       accountAgeMonths = 8, protocolCount = 2, repaymentHistory = ''good'',
       totalBorrowedUSD = b, totalRepaidUSD = r \<rparr> = 905 \<and>
   calculateCreditScore
     \<lparr> address = addr, hasLendingActivity = True, neverLiquidated = True,
       accountAgeMonths = 8, protocolCount = 2, repaymentHistory = ''good'',
       totalBorrowedUSD = b, totalRepaidUSD = r \<rparr> = 850 \<and>
   calculateCreditScore
     \<lparr> address = addr, hasLendingActivity = True, neverLiquidated = True,
       accountAgeMonths = 4, protocolCount = 1, repaymentHistory = ''average'',
       totalBorrowedUSD = b, totalRepaidUSD = r \<rparr> = 710 \<and>
   calculateCreditScore
     \<lparr> address = addr, hasLendingActivity = False, neverLiquidated = True,
       accountAgeMonths = 1, protocolCount = 0, repaymentHistory = ''none'',
       totalBorrowedUSD = b, totalRepaidUSD = r \<rparr> = 550"
  by (simp add: calculateCreditScore_eq scoreBeforeClamp_eq repaymentBonus_eq)

text \<open>
  What the chain does with a string it does not test, and so with every string outside the
  declared type other than \<^verbatim>\<open>'perfect'\<close>: nothing is added, and the score is that of the
  tier none. The function has no failing step; it returns a score for every string.
\<close>

lemma repaymentBonus_untested_string:
  "h \<noteq> ''perfect'' \<Longrightarrow> h \<noteq> ''good'' \<Longrightarrow> h \<noteq> ''average'' \<Longrightarrow>
   repaymentBonus h = 0 \<and>
   scoreBeforeClamp (a\<lparr>repaymentHistory := h\<rparr>) =
     scoreBeforeClamp (a\<lparr>repaymentHistory := ''none''\<rparr>) \<and>
   calculateCreditScore (a\<lparr>repaymentHistory := h\<rparr>) =
     calculateCreditScore (a\<lparr>repaymentHistory := ''none''\<rparr>)"
  by (simp add: calculateCreditScore_eq scoreBeforeClamp_eq repaymentBonus_eq)

lemma repaymentBonus_outside_type:
  "h \<notin> set repaymentTiers \<Longrightarrow> h \<noteq> ''perfect'' \<Longrightarrow> repaymentBonus h = 0"
  by (simp add: in_repaymentTiers repaymentBonus_eq)

text \<open>
  C9. The claim: tiers are matched exactly against the declared values, and a value that
  is none of them adds nothing. The chain tests \<^verbatim>\<open>'perfect'\<close>, \<^verbatim>\<open>'good'\<close> and
  \<^verbatim>\<open>'average'\<close> instead. The declared value \<^verbatim>\<open>"strong"\<close> matches no branch and is scored
  like an unknown string, and the string \<^verbatim>\<open>'perfect'\<close>, which is not a declared value,
  adds 150: with every other factor absent it scores 650, where the tier none scores 500.
\<close>

theorem tier_match_is_not_by_declared_value:
  "''strong'' \<in> set repaymentTiers \<and> repaymentBonus ''strong'' = 0 \<and>
   ''perfect'' \<notin> set repaymentTiers \<and> repaymentBonus ''perfect'' = 150 \<and>
   calculateCreditScore
     \<lparr> address = addr, hasLendingActivity = False, neverLiquidated = False,
       accountAgeMonths = 0, protocolCount = 0, repaymentHistory = ''perfect'',
       totalBorrowedUSD = b, totalRepaidUSD = r \<rparr> = 650 \<and>
   calculateCreditScore
     \<lparr> address = addr, hasLendingActivity = False, neverLiquidated = False,
       accountAgeMonths = 0, protocolCount = 0, repaymentHistory = ''none'',
       totalBorrowedUSD = b, totalRepaidUSD = r \<rparr> = 500"
  by (simp add: in_repaymentTiers calculateCreditScore_eq scoreBeforeClamp_eq
      repaymentBonus_eq)

text \<open>
  C10. With a non-negative age and protocol count the score is at least the base score
  500, so the lower clamp to 300 changes nothing: the score is the sum cut off at 850.
\<close>

theorem score_at_least_base:
  "0 \<le> WalletActivity.accountAgeMonths a \<Longrightarrow> 0 \<le> protocolCount a \<Longrightarrow>
   500 \<le> calculateCreditScore a \<and>
   baseScore SCORING \<le> calculateCreditScore a \<and>
   calculateCreditScore a = min (scoreBeforeClamp a) (maxScore SCORING)"
  using scoreBeforeClamp_bounds [of a]
  by (simp add: calculateCreditScore_eq SCORING_def)

theorem score_at_least_base_witness:
  "0 \<le> WalletActivity.accountAgeMonths (generateMockData ''0x03'') \<and>
   0 \<le> protocolCount (generateMockData ''0x03'') \<and>
   500 \<le> calculateCreditScore (generateMockData ''0x03'') \<and>
   calculateCreditScore (generateMockData ''0x03'') =
     min (scoreBeforeClamp (generateMockData ''0x03'')) (maxScore SCORING)"
proof -
  have v: "valid_snapshot (generateMockData ''0x03'')"
    by (rule generateMockData_valid)
  then have h1: "0 \<le> WalletActivity.accountAgeMonths (generateMockData ''0x03'')"
    and h2: "0 \<le> protocolCount (generateMockData ''0x03'')"
    by (simp_all add: valid_snapshot_def)
  from score_at_least_base [OF h1 h2] h1 h2 show ?thesis by blast
qed

section \<open>Properties of the oracle\<close>

lemma startedUpdates_append:
  "startedUpdates (xs @ ys) = startedUpdates xs @ startedUpdates ys"
  by (induction xs rule: startedUpdates.induct) simp_all

lemma startedUpdates_console: "startedUpdates (calculateCreditScore_console a) = []"
  by (simp add: calculateCreditScore_console_def)

lemma updateCreditScore_started:
  "startedUpdates (snd (snd (updateCreditScore net a (w, tr)))) = startedUpdates tr @ [a]"
  by (auto simp: updateCreditScore_def tryCatch_def andThen_def emit_def emitAll_def throw_def
        ret_def call_def scanWalletActivity_def Let_def startedUpdates_append
        startedUpdates_console
      split: prod.splits sum.splits option.splits)

subsection \<open>When every awaited call settles, every method returns\<close>

lemma andThen_settles:
  assumes "\<And>s. \<exists>r. fst (m s) = Some r" and "\<And>x s. \<exists>r. fst (f x s) = Some r"
  shows "\<exists>r. fst (andThen m f s) = Some r"
proof -
  obtain r s' where m: "m s = (Some r, s')"
    using assms(1) [of s] by (metis prod.collapse)
  show ?thesis
  proof (cases r)
    case (Inl e)
    with m show ?thesis by (simp add: andThen_def)
  next
    case (Inr x)
    with m assms(2) [of x s'] show ?thesis by (simp add: andThen_def)
  qed
qed

lemma tryCatch_settles:
  assumes "\<And>s. \<exists>r. fst (m s) = Some r" and "\<And>e s. \<exists>r. fst (h e s) = Some r"
  shows "\<exists>r. fst (tryCatch m h s) = Some r"
proof -
  obtain r s' where m: "m s = (Some r, s')"
    using assms(1) [of s] by (metis prod.collapse)
  show ?thesis
  proof (cases r)
    case (Inl e)
    with m assms(2) [of e s'] show ?thesis by (simp add: tryCatch_def)
  next
    case (Inr x)
    with m show ?thesis by (simp add: tryCatch_def)
  qed
qed

lemma call_settles:
  assumes "\<And>w. \<exists>r. fst (f w) = Some r"
  shows "\<exists>r. fst (call ev f s) = Some r"
  using assms [of "fst s"] by (auto simp: call_def split: prod.splits)

lemma simple_actions_settle:
  "\<exists>r. fst (ret x s) = Some r"
  "\<exists>r. fst (throw e s) = Some r"
  "\<exists>r. fst (emit ev s) = Some r"
  "\<exists>r. fst (emitAll evs s) = Some r"
  by (simp_all add: ret_def throw_def emit_def emitAll_def)

lemma scanWalletActivity_settles: "\<exists>r. fst (scanWalletActivity a s) = Some r"
  unfolding scanWalletActivity_def Let_def
  by (intro andThen_settles simple_actions_settle)

lemma updateCreditScore_settles:
  assumes "settles net"
  shows "\<exists>r. fst (updateCreditScore net a s) = Some r"
proof -
  have u: "\<And>user sc w. \<exists>r. fst (registry_updateScore net user sc w) = Some r"
    and t: "\<And>tx w. \<exists>r. fst (tx_wait net tx w) = Some r"
    using assms by (simp_all add: settles_def)
  have c: "\<And>s. \<exists>r. fst ((if \<not> ethers_isAddress net a
                 then throw (Error ''Invalid Ethereum address'') else ret ()) s) = Some r"
    by (simp add: simple_actions_settle)
  show ?thesis
    unfolding updateCreditScore_def Let_def
    by (intro tryCatch_settles andThen_settles simple_actions_settle
        scanWalletActivity_settles call_settles u t c)
qed

subsection \<open>The loop of the batch\<close>

text \<open>One turn of the loop: whatever the update returns, the loop goes on with the rest.\<close>

lemma batchLoop_after_failure:
  "updateCreditScore net a s = (Some (Inl e), s') \<Longrightarrow>
   batchLoop net (a # rest) s =
     batchLoop net rest (fst s', snd s' @ [Error_failed_to_update a (message e)])"
  by (simp add: andThen_def tryCatch_def emit_def)

lemma batchLoop_after_success:
  "updateCreditScore net a s = (Some (Inr r), s') \<Longrightarrow>
   batchLoop net (a # rest) s = batchLoop net rest (fst s', snd s' @ [Sleep 2000])"
  by (simp add: andThen_def tryCatch_def emit_def)

lemma batchLoop_while_pending:
  "updateCreditScore net a s = (None, s') \<Longrightarrow> batchLoop net (a # rest) s = (None, s')"
  by (simp add: andThen_def tryCatch_def)

lemma batchLoop_Cons_by_spec:
  assumes "fst (updateCreditScore net a s) = Some r"
  shows "batchLoop net (a # rest) s = batchLoop net rest (itemBySpec net s a)"
proof -
  obtain s' where u: "updateCreditScore net a s = (Some r, s')"
    using assms by (metis prod.collapse)
  show ?thesis
  proof (cases r)
    case (Inl e)
    with u batchLoop_after_failure [of net a s e s' rest] show ?thesis
      by (simp add: itemBySpec_def)
  next
    case (Inr x)
    with u batchLoop_after_success [of net a s x s' rest] show ?thesis
      by (simp add: itemBySpec_def)
  qed
qed

lemma batchLoop_by_spec:
  assumes "settles net"
  shows "batchLoop net addrs s = (Some (Inr ()), batchBySpec net addrs s)"
proof (induction addrs arbitrary: s)
  case Nil
  show ?case by (simp add: ret_def batchBySpec_def)
next
  case (Cons a rest)
  obtain r where "fst (updateCreditScore net a s) = Some r"
    using updateCreditScore_settles [OF assms] by blast
  then have "batchLoop net (a # rest) s = batchLoop net rest (itemBySpec net s a)"
    by (rule batchLoop_Cons_by_spec)
  with Cons.IH [of "itemBySpec net s a"] show ?case
    by (simp add: batchBySpec_def)
qed

lemma itemBySpec_started:
  "startedUpdates (snd (itemBySpec net (w, tr) a)) = startedUpdates tr @ [a]"
  using updateCreditScore_started [of net a w tr]
  by (auto simp: itemBySpec_def startedUpdates_append split: prod.splits option.splits sum.splits)

lemma batchBySpec_started:
  "startedUpdates (snd (batchBySpec net addrs (w, tr))) = startedUpdates tr @ addrs"
proof (induction addrs arbitrary: w tr)
  case Nil
  show ?case by (simp add: batchBySpec_def)
next
  case (Cons a rest)
  obtain w1 tr1 where i: "itemBySpec net (w, tr) a = (w1, tr1)"
    by (metis prod.exhaust)
  then have "startedUpdates tr1 = startedUpdates tr @ [a]"
    using itemBySpec_started [of net w tr a] by simp
  with i Cons.IH [of w1 tr1] show ?case
    by (simp add: batchBySpec_def)
qed

text \<open>Whatever the network does, no error leaves the loop or the batch.\<close>

lemma batchLoop_never_throws: "fst (batchLoop net addrs s) \<noteq> Some (Inl e)"
proof (induction addrs arbitrary: s)
  case Nil
  show ?case by (simp add: ret_def)
next
  case (Cons a rest)
  obtain o' s' where u: "updateCreditScore net a s = (o', s')"
    by (metis prod.exhaust)
  show ?case
  proof (cases o')
    case None
    with u have "batchLoop net (a # rest) s = (None, s')"
      by (intro batchLoop_while_pending) simp
    then show ?thesis by (simp del: batchLoop.simps)
  next
    case (Some r)
    with u have "batchLoop net (a # rest) s = batchLoop net rest (itemBySpec net s a)"
      by (intro batchLoop_Cons_by_spec [of net a s r]) simp
    with Cons.IH [of "itemBySpec net s a"] show ?thesis by (simp del: batchLoop.simps)
  qed
qed

lemma batchUpdateScores_never_throws:
  "fst (batchUpdateScores net addrs s) \<noteq> Some (Inl e)"
  using batchLoop_never_throws [of net addrs "(fst s, snd s @ [Log_batch_start (length addrs)])" e]
  by (auto simp: batchUpdateScores_def andThen_def emit_def
      split: prod.splits option.splits sum.splits)

text \<open>
  C6. When the address fails the format test, the update fails with the error
  \<^verbatim>\<open>Invalid Ethereum address\<close>; the world is left as it was, and the trace gains only the
  two console lines: no activity fetch, no contract call.
\<close>

theorem updateCreditScore_invalid_address:
  "\<not> ethers_isAddress net a \<Longrightarrow>
   updateCreditScore net a (w, tr) =
     (Some (Inl (Error ''Invalid Ethereum address'')),
      (w, tr @ [Log_processing a, Error_updating ''Invalid Ethereum address''])) \<and>
   filter isOutsideCall (snd (snd (updateCreditScore net a (w, tr)))) =
     filter isOutsideCall tr"
  by (simp add: updateCreditScore_def tryCatch_def andThen_def emit_def throw_def)

theorem updateCreditScore_invalid_address_witness:
  "\<not> ethers_isAddress exampleNetwork ''not an address'' \<and>
   updateCreditScore exampleNetwork ''not an address'' (7, []) =
     (Some (Inl (Error ''Invalid Ethereum address'')),
      (7, [Log_processing ''not an address'',
           Error_updating ''Invalid Ethereum address''])) \<and>
   filter isOutsideCall
     (snd (snd (updateCreditScore exampleNetwork ''not an address'' (7, [])))) = []"
proof -
  have h: "\<not> ethers_isAddress exampleNetwork ''not an address''"
    by (simp add: exampleNetwork_def)
  from updateCreditScore_invalid_address [OF h, of 7 "[]"] h show ?thesis by simp
qed

text \<open>
  C7. \<^verbatim>\<open>hasScore\<close> never returns an error. When the contract query fails, it returns
  false and prints the error; when the query answers, it returns that boolean; while the
  query is pending, so is \<^verbatim>\<open>hasScore\<close>.
\<close>

theorem hasScore_degrades_to_false:
  "hasScore net a (w, tr) =
     (case registry_hasScore net a w of
        (Some (Inl e), w') \<Rightarrow>
          (Some (Inr False), (w', tr @ [Call_hasScore a, Error_checking e]))
      | (Some (Inr b), w') \<Rightarrow> (Some (Inr b), (w', tr @ [Call_hasScore a]))
      | (None, w') \<Rightarrow> (None, (w', tr @ [Call_hasScore a])))"
  by (simp add: hasScore_def tryCatch_def call_def andThen_def emit_def ret_def
      split: prod.splits sum.splits option.splits)

text \<open>
  C8. The claim: for every list the batch runs the update for every address, in the order
  of the list, a failure is caught and the loop goes on, and no error leaves the batch. The
  update awaits the confirmation of its transaction with no timeout, so on a network where
  a confirmation never comes the batch waits in the first such update and the addresses
  after it are never started.
\<close>

theorem batch_waits_forever_counterexample:
  "fst (batchUpdateScores stalledNetwork
         [''0x0000000000000000000000000000000000000000'',
          ''0x0000000000000000000000000000000000000004''] (0, [])) = None \<and>
   startedUpdates (snd (snd (batchUpdateScores stalledNetwork
         [''0x0000000000000000000000000000000000000000'',
          ''0x0000000000000000000000000000000000000004''] (0, [])))) =
     [''0x0000000000000000000000000000000000000000'']"
  by code_simp

text \<open>
  C8, amended. When every contract call that the update awaits settles, the batch returns
  normally, and it has done what the specification asks: the final state is the one reached
  by running the update on each address in turn, each on the state the previous one left,
  with a failure logged and passed over; the updates started are the addresses of the list,
  in the order of the list.
\<close>

theorem batch_runs_every_update_in_order:
  "settles net \<Longrightarrow>
   batchUpdateScores net addrs (w, tr) =
     (Some (Inr ()),
      (fst (batchBySpec net addrs (w, tr @ [Log_batch_start (length addrs)])),
       snd (batchBySpec net addrs (w, tr @ [Log_batch_start (length addrs)]))
         @ [Log_batch_complete])) \<and>
   startedUpdates (snd (snd (batchUpdateScores net addrs (w, tr)))) =
     startedUpdates tr @ addrs"
proof -
  assume s: "settles net"
  let ?s0 = "(w, tr @ [Log_batch_start (length addrs)])"
  have b: "batchLoop net addrs ?s0 = (Some (Inr ()), batchBySpec net addrs ?s0)"
    using s by (rule batchLoop_by_spec)
  have st: "startedUpdates (snd (batchBySpec net addrs ?s0)) = startedUpdates tr @ addrs"
    using batchBySpec_started [of net addrs w "tr @ [Log_batch_start (length addrs)]"]
    by (simp add: startedUpdates_append)
  from b st show ?thesis
    by (simp add: batchUpdateScores_def andThen_def emit_def startedUpdates_append)
qed

lemma exampleNetwork_settles: "settles exampleNetwork"
  by (simp add: settles_def exampleNetwork_def)

lemma batchBySpec_example:
  "batchBySpec exampleNetwork
     [''bad'', ''0x0000000000000000000000000000000000000000'']
     (0, [] @ [Log_batch_start
                 (length [''bad'', ''0x0000000000000000000000000000000000000000''])]) =
   (1,
    [Log_batch_start 2,
     Log_processing ''bad'',
     Error_updating ''Invalid Ethereum address'',
     Error_failed_to_update ''bad'' ''Invalid Ethereum address'',
     Log_processing ''0x0000000000000000000000000000000000000000'',
     Log_scanning ''0x0000000000000000000000000000000000000000'',
     Log_scan_complete
       \<lparr> address = ''0x0000000000000000000000000000000000000000'',
         hasLendingActivity = True, neverLiquidated = True, accountAgeMonths = 12,
         protocolCount = 3, repaymentHistory = ''strong'', totalBorrowedUSD = 50000,
         totalRepaidUSD = 50000 \<rparr>,
     Log_bonus ''Has lending activity'' 100,
     Log_bonus ''Never liquidated'' 50,
     Log_bonus ''Account age'' 100,
     Log_bonus ''Multi-protocol user'' 50,
     Log_calculated 800,
     Call_updateScore ''0x0000000000000000000000000000000000000000'' 800,
     Log_transaction_sent ''0xfeed'',
     Log_waiting_for_confirmation,
     Call_wait ''0xfeed'',
     Log_score_updated 1,
     Sleep 2000])"
  by code_simp

theorem batch_runs_every_update_in_order_witness:
  "settles exampleNetwork \<and>
   batchUpdateScores exampleNetwork
     [''bad'', ''0x0000000000000000000000000000000000000000''] (0, []) =
   (Some (Inr ()), 1,
    [Log_batch_start 2,
     Log_processing ''bad'',
     Error_updating ''Invalid Ethereum address'',
     Error_failed_to_update ''bad'' ''Invalid Ethereum address'',
     Log_processing ''0x0000000000000000000000000000000000000000'',
     Log_scanning ''0x0000000000000000000000000000000000000000'',
     Log_scan_complete
       \<lparr> address = ''0x0000000000000000000000000000000000000000'',
         hasLendingActivity = True, neverLiquidated = True, accountAgeMonths = 12,
         protocolCount = 3, repaymentHistory = ''strong'', totalBorrowedUSD = 50000,
         totalRepaidUSD = 50000 \<rparr>,
     Log_bonus ''Has lending activity'' 100,
     Log_bonus ''Never liquidated'' 50,
     Log_bonus ''Account age'' 100,
     Log_bonus ''Multi-protocol user'' 50,
     Log_calculated 800,
     Call_updateScore ''0x0000000000000000000000000000000000000000'' 800,
     Log_transaction_sent ''0xfeed'',
     Log_waiting_for_confirmation,
     Call_wait ''0xfeed'',
     Log_score_updated 1,
     Sleep 2000,
     Log_batch_complete]) \<and>
   startedUpdates (snd (snd (batchUpdateScores exampleNetwork
     [''bad'', ''0x0000000000000000000000000000000000000000''] (0, [])))) =
     [''bad'', ''0x0000000000000000000000000000000000000000'']"
  using batch_runs_every_update_in_order [OF exampleNetwork_settles,
      of "[''bad'', ''0x0000000000000000000000000000000000000000'']" 0 "[]"]
    exampleNetwork_settles
  unfolding batchBySpec_example
  by simp

text \<open>
  A longer run on the example network: the first address fails the format test, the second
  is scored and confirmed, the third is rejected by the contract; the loop visits all three.
\<close>

lemma batchUpdateScores_example:
  "batchUpdateScores exampleNetwork
     [''bad'', ''0x0000000000000000000000000000000000000000'',
      ''0x0000000000000000000000000000000000000001''] (0, []) =
   (Some (Inr ()), 1,
    [Log_batch_start 3,
     Log_processing ''bad'',
     Error_updating ''Invalid Ethereum address'',
     Error_failed_to_update ''bad'' ''Invalid Ethereum address'',
     Log_processing ''0x0000000000000000000000000000000000000000'',
     Log_scanning ''0x0000000000000000000000000000000000000000'',
     Log_scan_complete
       \<lparr> address = ''0x0000000000000000000000000000000000000000'',
         hasLendingActivity = True, neverLiquidated = True, accountAgeMonths = 12,
         protocolCount = 3, repaymentHistory = ''strong'', totalBorrowedUSD = 50000,
         totalRepaidUSD = 50000 \<rparr>,
     Log_bonus ''Has lending activity'' 100,
     Log_bonus ''Never liquidated'' 50,
     Log_bonus ''Account age'' 100,
     Log_bonus ''Multi-protocol user'' 50,
     Log_calculated 800,
     Call_updateScore ''0x0000000000000000000000000000000000000000'' 800,
     Log_transaction_sent ''0xfeed'',
     Log_waiting_for_confirmation,
     Call_wait ''0xfeed'',
     Log_score_updated 1,
     Sleep 2000,
     Log_processing ''0x0000000000000000000000000000000000000001'',
     Log_scanning ''0x0000000000000000000000000000000000000001'',
     Log_scan_complete
       \<lparr> address = ''0x0000000000000000000000000000000000000001'',
         hasLendingActivity = True, neverLiquidated = True, accountAgeMonths = 8,
         protocolCount = 2, repaymentHistory = ''good'', totalBorrowedUSD = 25000,
         totalRepaidUSD = 25000 \<rparr>,
     Log_bonus ''Has lending activity'' 100,
     Log_bonus ''Never liquidated'' 50,
     Log_bonus ''Account age'' 100,
     Log_bonus ''Multi-protocol user'' 50,
     Log_bonus ''Good repayments'' 105,
     Log_calculated 850,
     Call_updateScore ''0x0000000000000000000000000000000000000001'' 850,
     Error_updating ''execution reverted'',
     Error_failed_to_update ''0x0000000000000000000000000000000000000001''
       ''execution reverted'',
     Log_batch_complete])"
  by code_simp

lemma hasScore_example:
  "hasScore exampleNetwork ''0x0000000000000000000000000000000000000001'' (0, []) =
     (Some (Inr True), 0, [Call_hasScore ''0x0000000000000000000000000000000000000001'']) \<and>
   hasScore exampleNetwork ''0x0000000000000000000000000000000000000002'' (0, []) =
     (Some (Inr False), 0,
      [Call_hasScore ''0x0000000000000000000000000000000000000002'',
       Error_checking (Error ''could not detect network'')])"
  by code_simp

end
